theory Spec2Isabelle
  imports Main
begin

section \<open>The stoplight of the intersection simulation\<close>

text \<open>
  A shallow embedding of \<^verbatim>\<open>src/entities/stoplight.py\<close>: the class \<^verbatim>\<open>Stoplight\<close>
  holds one colour for each of the two directions (north-south and east-west) and two
  tick counters. The specification calls the class the phase controller, the method
  \<^verbatim>\<open>switch_yellow\<close> \<^verbatim>\<open>request_transition\<close>, the method \<^verbatim>\<open>update_stoplight\<close>
  \<^verbatim>\<open>tick\<close>, the colours RED, YELLOW, GREEN the indications Stop, Caution, Go, and the
  counters \<^verbatim>\<open>time_green\<close>, \<^verbatim>\<open>time_yellow\<close> \<^verbatim>\<open>elapsed_go\<close>, \<^verbatim>\<open>elapsed_caution\<close>.
\<close>

subsection \<open>Data\<close>

text \<open>
  Modelled from the spec: the enumeration \<^verbatim>\<open>TrafficLightColor\<close> of
  \<^verbatim>\<open>entities/colors.py\<close> is imported by the stoplight but its file is not among the
  sources. The stoplight only stores and compares the \<^verbatim>\<open>.value\<close> of its three
  members \<^verbatim>\<open>RED\<close>, \<^verbatim>\<open>YELLOW\<close> and \<^verbatim>\<open>GREEN\<close> (the spec's Stop, Caution and Go), so
  the three values are modelled as the three constructors of a datatype, pairwise
  distinct as the members of an enumeration of three indications are.
\<close>

datatype TrafficLightColor = RED | YELLOW | GREEN

text \<open>The attributes of a \<^verbatim>\<open>Stoplight\<close> object; Python integers are unbounded.\<close>

record stoplight =
  color_NS :: TrafficLightColor
  color_EW :: TrafficLightColor
  time_yellow :: int
  time_green :: int

text \<open>The class constant \<^verbatim>\<open>YELLOW_DURATION = 90  # ticks\<close>.\<close>

definition YELLOW_DURATION :: int where
  "YELLOW_DURATION = 90"

subsection \<open>Operations\<close>

text \<open>
  \<^verbatim>\<open>__init__\<close>: the outcome of \<^verbatim>\<open>random.choice([True, False])\<close> is the argument.
  North-south is GREEN when the choice is true and RED otherwise; east-west is set from
  the colour just stored for north-south; both counters start at zero.
\<close>

definition Stoplight_init :: "bool \<Rightarrow> stoplight" where
  "Stoplight_init choice =
     (let ns = (if choice then GREEN else RED);
          ew = (if ns = GREEN then RED else GREEN)
      in \<lparr>color_NS = ns, color_EW = ew, time_yellow = 0, time_green = 0\<rparr>)"

definition get_ns_color :: "stoplight \<Rightarrow> TrafficLightColor" where
  "get_ns_color s = color_NS s"

definition get_ew_color :: "stoplight \<Rightarrow> TrafficLightColor" where
  "get_ew_color s = color_EW s"

text \<open>
  \<^verbatim>\<open>switch_yellow\<close>: an \<^verbatim>\<open>if\<close>/\<^verbatim>\<open>elif\<close> without \<^verbatim>\<open>else\<close>; north-south is tested
  first.
\<close>

definition switch_yellow :: "stoplight \<Rightarrow> stoplight" where
  "switch_yellow s =
     (if color_NS s = GREEN then s\<lparr>color_NS := YELLOW, time_green := 0\<rparr>
      else if color_EW s = GREEN then s\<lparr>color_EW := YELLOW, time_green := 0\<rparr>
      else s)"

text \<open>
  \<^verbatim>\<open>update_stoplight\<close>: three statements in sequence. The first two increment the
  counters; the third compares the counter just incremented with the duration, swaps
  the colours when a direction is YELLOW and resets the counter whether or not a
  direction was YELLOW.
\<close>

definition update_stoplight :: "stoplight \<Rightarrow> stoplight" where
  "update_stoplight s =
     (let s1 = (if color_NS s = GREEN \<or> color_EW s = GREEN
                then s\<lparr>time_green := time_green s + 1\<rparr> else s);
          s2 = (if color_NS s1 = YELLOW \<or> color_EW s1 = YELLOW
                then s1\<lparr>time_yellow := time_yellow s1 + 1\<rparr> else s1)
      in if time_yellow s2 \<ge> YELLOW_DURATION
         then (if color_NS s2 = YELLOW then s2\<lparr>color_NS := RED, color_EW := GREEN\<rparr>
               else if color_EW s2 = YELLOW then s2\<lparr>color_EW := RED, color_NS := GREEN\<rparr>
               else s2)\<lparr>time_yellow := 0\<rparr>
         else s2)"

subsection \<open>Reachable states\<close>

text \<open>
  A stoplight is mutated only by its two methods. A reachable state is what a finite
  sequence of calls, made in list order, leaves of a freshly constructed stoplight.
\<close>

datatype call = Switch_yellow | Update_stoplight

fun step :: "call \<Rightarrow> stoplight \<Rightarrow> stoplight" where
  "step Switch_yellow s = switch_yellow s"
| "step Update_stoplight s = update_stoplight s"

fun run :: "call list \<Rightarrow> stoplight \<Rightarrow> stoplight" where
  "run [] s = s"
| "run (c # cs) s = run cs (step c s)"

text \<open>
  The facts that hold together in every reachable state: the two colours are
  complementary, the yellow counter stays below the duration and is zero unless a
  direction is YELLOW, and the green counter is zero while a direction is YELLOW.
\<close>

definition stoplight_inv :: "stoplight \<Rightarrow> bool" where
  "stoplight_inv s \<longleftrightarrow>
     ((color_NS s = GREEN \<and> color_EW s = RED) \<or> (color_NS s = YELLOW \<and> color_EW s = RED) \<or>
      (color_NS s = RED \<and> color_EW s = GREEN) \<or> (color_NS s = RED \<and> color_EW s = YELLOW)) \<and>
     0 \<le> time_yellow s \<and> time_yellow s < YELLOW_DURATION \<and>
     (color_NS s \<noteq> YELLOW \<and> color_EW s \<noteq> YELLOW \<longrightarrow> time_yellow s = 0) \<and>
     (color_NS s = YELLOW \<or> color_EW s = YELLOW \<longrightarrow> time_green s = 0)"

section \<open>Properties\<close>

subsection \<open>The invariant is established and preserved\<close>

lemma inv_init: "stoplight_inv (Stoplight_init b)"
  by (cases b) (simp_all add: stoplight_inv_def Stoplight_init_def YELLOW_DURATION_def)

lemma inv_switch_yellow: "stoplight_inv s \<Longrightarrow> stoplight_inv (switch_yellow s)"
  by (cases "color_NS s"; cases "color_EW s")
     (simp_all add: stoplight_inv_def switch_yellow_def)

lemma inv_update_stoplight: "stoplight_inv s \<Longrightarrow> stoplight_inv (update_stoplight s)"
  by (cases "color_NS s"; cases "color_EW s")
     (simp_all add: stoplight_inv_def update_stoplight_def YELLOW_DURATION_def Let_def)

lemma inv_step: "stoplight_inv s \<Longrightarrow> stoplight_inv (step c s)"
  by (cases c) (simp_all add: inv_switch_yellow inv_update_stoplight)

lemma inv_run: "stoplight_inv s \<Longrightarrow> stoplight_inv (run cs s)"
  by (induction cs arbitrary: s) (simp_all add: inv_step)

lemma inv_reachable: "stoplight_inv (run cs (Stoplight_init b))"
  by (rule inv_run [OF inv_init])

subsection \<open>Ticks during a yellow phase\<close>

text \<open>
  While one direction is YELLOW and the other RED, a tick that leaves the yellow counter
  below the duration only increments that counter; the tick on which the incremented
  counter reaches the duration swaps the colours and resets it.
\<close>

lemma caution_ticks_NS:
  "color_NS s = YELLOW \<Longrightarrow> color_EW s = RED \<Longrightarrow> time_yellow s + int n < YELLOW_DURATION \<Longrightarrow>
   (update_stoplight ^^ n) s = s\<lparr>time_yellow := time_yellow s + int n\<rparr>"
  by (induction n) (simp_all add: update_stoplight_def Let_def YELLOW_DURATION_def)

lemma caution_ticks_EW:
  "color_EW s = YELLOW \<Longrightarrow> color_NS s = RED \<Longrightarrow> time_yellow s + int n < YELLOW_DURATION \<Longrightarrow>
   (update_stoplight ^^ n) s = s\<lparr>time_yellow := time_yellow s + int n\<rparr>"
  by (induction n) (simp_all add: update_stoplight_def Let_def YELLOW_DURATION_def)

lemma swap_tick_NS:
  "color_NS s = YELLOW \<Longrightarrow> color_EW s = RED \<Longrightarrow> YELLOW_DURATION \<le> time_yellow s + 1 \<Longrightarrow>
   update_stoplight s = s\<lparr>color_NS := RED, color_EW := GREEN, time_yellow := 0\<rparr>"
  by (simp add: update_stoplight_def Let_def)

lemma swap_tick_EW:
  "color_EW s = YELLOW \<Longrightarrow> color_NS s = RED \<Longrightarrow> YELLOW_DURATION \<le> time_yellow s + 1 \<Longrightarrow>
   update_stoplight s = s\<lparr>color_NS := GREEN, color_EW := RED, time_yellow := 0\<rparr>"
  by (simp add: update_stoplight_def Let_def)

lemma ticks_then_swap_NS:
  assumes "color_NS s = YELLOW" "color_EW s = RED" "time_yellow s + int n + 1 = YELLOW_DURATION"
  shows "(update_stoplight ^^ Suc n) s = s\<lparr>color_NS := RED, color_EW := GREEN, time_yellow := 0\<rparr>"
proof -
  from assms have "(update_stoplight ^^ n) s = s\<lparr>time_yellow := time_yellow s + int n\<rparr>"
    by (intro caution_ticks_NS) simp_all
  then show ?thesis using assms by (simp add: swap_tick_NS)
qed

lemma ticks_then_swap_EW:
  assumes "color_EW s = YELLOW" "color_NS s = RED" "time_yellow s + int n + 1 = YELLOW_DURATION"
  shows "(update_stoplight ^^ Suc n) s = s\<lparr>color_NS := GREEN, color_EW := RED, time_yellow := 0\<rparr>"
proof -
  from assms have "(update_stoplight ^^ n) s = s\<lparr>time_yellow := time_yellow s + int n\<rparr>"
    by (intro caution_ticks_EW) simp_all
  then show ?thesis using assms by (simp add: swap_tick_EW)
qed

lemma run_ticks: "run (replicate n Update_stoplight) s = (update_stoplight ^^ n) s"
  by (induction n arbitrary: s) (simp_all add: funpow_swap1)

lemma last_caution_state_NS:
  "run (Switch_yellow # replicate 89 Update_stoplight) (Stoplight_init True)
     = \<lparr>color_NS = YELLOW, color_EW = RED, time_yellow = 89, time_green = 0\<rparr>"
  by (simp add: run_ticks caution_ticks_NS switch_yellow_def Stoplight_init_def
        YELLOW_DURATION_def)

subsection \<open>Construction\<close>

text \<open>
  C6. Whatever the random boolean, construction makes exactly one direction GREEN and
  the other RED, none YELLOW, and sets both counters to zero.
\<close>

theorem init_one_green_counters_zero:
  "((color_NS (Stoplight_init b) = GREEN \<and> color_EW (Stoplight_init b) = RED) \<or>
    (color_NS (Stoplight_init b) = RED \<and> color_EW (Stoplight_init b) = GREEN)) \<and>
   color_NS (Stoplight_init b) \<noteq> YELLOW \<and> color_EW (Stoplight_init b) \<noteq> YELLOW \<and>
   time_green (Stoplight_init b) = 0 \<and> time_yellow (Stoplight_init b) = 0 \<and>
   Stoplight_init True = \<lparr>color_NS = GREEN, color_EW = RED, time_yellow = 0, time_green = 0\<rparr> \<and>
   Stoplight_init False = \<lparr>color_NS = RED, color_EW = GREEN, time_yellow = 0, time_green = 0\<rparr>"
  by (cases b) (simp_all add: Stoplight_init_def)

subsection \<open>Mutual exclusion\<close>

text \<open>
  C1 (invariant I1). In every reachable state exactly one direction is not RED, that
  direction being GREEN or YELLOW, and the other direction is RED: never both RED and
  never both other than RED.
\<close>

theorem mutual_exclusion:
  "(color_NS (run cs (Stoplight_init b)) \<in> {GREEN, YELLOW} \<and>
      color_EW (run cs (Stoplight_init b)) = RED) \<or>
   (color_NS (run cs (Stoplight_init b)) = RED \<and>
      color_EW (run cs (Stoplight_init b)) \<in> {GREEN, YELLOW})"
  using inv_reachable [of cs b] unfolding stoplight_inv_def by auto

subsection \<open>Requesting a transition\<close>

text \<open>
  C4. For every state, reachable or not: when a direction is GREEN,
  \<^verbatim>\<open>switch_yellow\<close> turns that direction YELLOW and sets \<^verbatim>\<open>time_green\<close> to 0, and
  leaves the colour of the other direction and \<^verbatim>\<open>time_yellow\<close> as they were; when no
  direction is GREEN the whole state is unchanged. The direction that changes is
  north-south when north-south is GREEN, and east-west otherwise; in the unreachable
  state with both directions GREEN it is therefore north-south, east-west staying GREEN.
\<close>

theorem switch_yellow_effect:
  "(color_NS s = GREEN \<longrightarrow>
      color_NS (switch_yellow s) = YELLOW \<and> color_EW (switch_yellow s) = color_EW s \<and>
      time_green (switch_yellow s) = 0 \<and> time_yellow (switch_yellow s) = time_yellow s) \<and>
   (color_NS s \<noteq> GREEN \<and> color_EW s = GREEN \<longrightarrow>
      color_EW (switch_yellow s) = YELLOW \<and> color_NS (switch_yellow s) = color_NS s \<and>
      time_green (switch_yellow s) = 0 \<and> time_yellow (switch_yellow s) = time_yellow s) \<and>
   (color_NS s \<noteq> GREEN \<and> color_EW s \<noteq> GREEN \<longrightarrow> switch_yellow s = s)"
  by (simp add: switch_yellow_def)

text \<open>The three cases at concrete states: north-south GREEN, east-west GREEN, no GREEN.\<close>

theorem switch_yellow_effect_witness:
  "color_NS \<lparr>color_NS = GREEN, color_EW = RED, time_yellow = 0, time_green = 7\<rparr> = GREEN \<and>
   switch_yellow \<lparr>color_NS = GREEN, color_EW = RED, time_yellow = 0, time_green = 7\<rparr>
     = \<lparr>color_NS = YELLOW, color_EW = RED, time_yellow = 0, time_green = 0\<rparr> \<and>
   color_EW \<lparr>color_NS = RED, color_EW = GREEN, time_yellow = 0, time_green = 7\<rparr> = GREEN \<and>
   switch_yellow \<lparr>color_NS = RED, color_EW = GREEN, time_yellow = 0, time_green = 7\<rparr>
     = \<lparr>color_NS = RED, color_EW = YELLOW, time_yellow = 0, time_green = 0\<rparr> \<and>
   switch_yellow \<lparr>color_NS = YELLOW, color_EW = RED, time_yellow = 3, time_green = 0\<rparr>
     = \<lparr>color_NS = YELLOW, color_EW = RED, time_yellow = 3, time_green = 0\<rparr>"
  using switch_yellow_effect [of "\<lparr>color_NS = GREEN, color_EW = RED, time_yellow = 0, time_green = 7\<rparr>"]
    switch_yellow_effect [of "\<lparr>color_NS = RED, color_EW = GREEN, time_yellow = 0, time_green = 7\<rparr>"]
    switch_yellow_effect [of "\<lparr>color_NS = YELLOW, color_EW = RED, time_yellow = 3, time_green = 0\<rparr>"]
  by (simp add: switch_yellow_def)

text \<open>
  C8 (scenario 4). With north-south RED and east-west GREEN, \<^verbatim>\<open>switch_yellow\<close> turns
  east-west YELLOW and resets \<^verbatim>\<open>time_green\<close> to 0; north-south stays RED.
\<close>

theorem switch_yellow_active_EW:
  "color_NS s = RED \<Longrightarrow> color_EW s = GREEN \<Longrightarrow>
   color_EW (switch_yellow s) = YELLOW \<and> color_NS (switch_yellow s) = RED \<and>
   time_green (switch_yellow s) = 0 \<and> time_yellow (switch_yellow s) = time_yellow s"
  by (simp add: switch_yellow_def)

theorem switch_yellow_active_EW_witness:
  "color_NS \<lparr>color_NS = RED, color_EW = GREEN, time_yellow = 0, time_green = 12\<rparr> = RED \<and>
   color_EW \<lparr>color_NS = RED, color_EW = GREEN, time_yellow = 0, time_green = 12\<rparr> = GREEN \<and>
   color_EW (switch_yellow \<lparr>color_NS = RED, color_EW = GREEN, time_yellow = 0, time_green = 12\<rparr>) = YELLOW \<and>
   color_NS (switch_yellow \<lparr>color_NS = RED, color_EW = GREEN, time_yellow = 0, time_green = 12\<rparr>) = RED \<and>
   time_green (switch_yellow \<lparr>color_NS = RED, color_EW = GREEN, time_yellow = 0, time_green = 12\<rparr>) = 0"
  using switch_yellow_active_EW [of "\<lparr>color_NS = RED, color_EW = GREEN, time_yellow = 0, time_green = 12\<rparr>"]
  by simp

text \<open>
  C5. In every reachable state a second \<^verbatim>\<open>switch_yellow\<close> directly after a first one
  changes nothing: the state after two calls is the state after one.
\<close>

theorem switch_yellow_idempotent:
  "switch_yellow (switch_yellow (run cs (Stoplight_init b))) = switch_yellow (run cs (Stoplight_init b))"
  using inv_reachable [of cs b] unfolding stoplight_inv_def
  by (auto simp add: switch_yellow_def)

subsection \<open>The counters\<close>

text \<open>
  C7 (invariant I3). In every reachable state, when neither direction is YELLOW the
  counter \<^verbatim>\<open>time_yellow\<close> is 0; so it is non-zero only while a direction is YELLOW.
\<close>

theorem time_yellow_zero_unless_yellow:
  "color_NS (run cs (Stoplight_init b)) \<noteq> YELLOW \<and> color_EW (run cs (Stoplight_init b)) \<noteq> YELLOW
   \<longrightarrow> time_yellow (run cs (Stoplight_init b)) = 0"
  using inv_reachable [of cs b] unfolding stoplight_inv_def by simp

theorem time_yellow_zero_unless_yellow_witness:
  "color_NS (run [Update_stoplight, Update_stoplight] (Stoplight_init False)) \<noteq> YELLOW \<and>
   color_EW (run [Update_stoplight, Update_stoplight] (Stoplight_init False)) \<noteq> YELLOW \<and>
   time_yellow (run [Update_stoplight, Update_stoplight] (Stoplight_init False)) = 0"
  using time_yellow_zero_unless_yellow [of "[Update_stoplight, Update_stoplight]" False]
  by (simp add: Stoplight_init_def update_stoplight_def Let_def YELLOW_DURATION_def)

text \<open>
  C9 (invariant I4). In every reachable state \<^verbatim>\<open>time_yellow\<close> is at most
  \<^verbatim>\<open>YELLOW_DURATION\<close> (it is in fact non-negative and strictly below it), and the tick
  whose increment makes the counter reach the duration swaps the colours (the YELLOW
  direction becomes RED, the other GREEN) and resets the counter to 0 within that tick.
\<close>

theorem time_yellow_bounded:
  "let s = run cs (Stoplight_init b) in
     time_yellow s \<le> YELLOW_DURATION \<and> time_yellow s < YELLOW_DURATION \<and> 0 \<le> time_yellow s \<and>
     ((color_NS s = YELLOW \<or> color_EW s = YELLOW) \<and> YELLOW_DURATION \<le> time_yellow s + 1 \<longrightarrow>
        time_yellow (update_stoplight s) = 0 \<and>
        (color_NS s = YELLOW \<longrightarrow>
           color_NS (update_stoplight s) = RED \<and> color_EW (update_stoplight s) = GREEN) \<and>
        (color_EW s = YELLOW \<longrightarrow>
           color_EW (update_stoplight s) = RED \<and> color_NS (update_stoplight s) = GREEN))"
proof -
  define s where "s = run cs (Stoplight_init b)"
  have inv: "stoplight_inv s"
    unfolding s_def by (rule inv_reachable)
  then have bounds: "time_yellow s \<le> YELLOW_DURATION \<and> time_yellow s < YELLOW_DURATION \<and> 0 \<le> time_yellow s"
    by (simp add: stoplight_inv_def)
  have swap: "time_yellow (update_stoplight s) = 0 \<and>
        (color_NS s = YELLOW \<longrightarrow>
           color_NS (update_stoplight s) = RED \<and> color_EW (update_stoplight s) = GREEN) \<and>
        (color_EW s = YELLOW \<longrightarrow>
           color_EW (update_stoplight s) = RED \<and> color_NS (update_stoplight s) = GREEN)"
    if "color_NS s = YELLOW \<or> color_EW s = YELLOW" and "YELLOW_DURATION \<le> time_yellow s + 1"
  proof -
    from inv that(1) have "color_NS s = YELLOW \<and> color_EW s = RED \<or> color_EW s = YELLOW \<and> color_NS s = RED"
      by (auto simp add: stoplight_inv_def)
    then show ?thesis
      using that(2) by (auto simp add: swap_tick_NS swap_tick_EW)
  qed
  from bounds swap show ?thesis
    unfolding Let_def s_def [symmetric] by blast
qed

text \<open>
  The state reached by one \<^verbatim>\<open>switch_yellow\<close> and 89 ticks has the counter at 89; the
  next tick is the one that swaps.
\<close>

theorem time_yellow_bounded_witness:
  "time_yellow (run (Switch_yellow # replicate 89 Update_stoplight) (Stoplight_init True)) \<le> YELLOW_DURATION \<and>
   color_NS (run (Switch_yellow # replicate 89 Update_stoplight) (Stoplight_init True)) = YELLOW \<and>
   YELLOW_DURATION \<le> time_yellow (run (Switch_yellow # replicate 89 Update_stoplight) (Stoplight_init True)) + 1 \<and>
   time_yellow (update_stoplight (run (Switch_yellow # replicate 89 Update_stoplight) (Stoplight_init True))) = 0 \<and>
   color_NS (update_stoplight (run (Switch_yellow # replicate 89 Update_stoplight) (Stoplight_init True))) = RED \<and>
   color_EW (update_stoplight (run (Switch_yellow # replicate 89 Update_stoplight) (Stoplight_init True))) = GREEN"
  using time_yellow_bounded [of "Switch_yellow # replicate 89 Update_stoplight" True]
  unfolding Let_def last_caution_state_NS
  by (simp add: YELLOW_DURATION_def)

text \<open>
  C10. In every reachable state with a YELLOW direction \<^verbatim>\<open>time_green\<close> is 0, and a
  tick from such a state leaves it 0: the green counter is not incremented during a
  yellow phase, so the direction that becomes GREEN at the swap starts counting from 0.
\<close>

theorem time_green_zero_while_yellow:
  "let s = run cs (Stoplight_init b) in
     color_NS s = YELLOW \<or> color_EW s = YELLOW \<longrightarrow>
       time_green s = 0 \<and> time_green (update_stoplight s) = 0"
proof -
  define s where "s = run cs (Stoplight_init b)"
  have inv: "stoplight_inv s"
    unfolding s_def by (rule inv_reachable)
  have "time_green s = 0 \<and> time_green (update_stoplight s) = 0"
    if "color_NS s = YELLOW \<or> color_EW s = YELLOW"
  proof
    from inv that show "time_green s = 0"
      by (simp add: stoplight_inv_def)
    from inv that have "time_green s = 0" "color_NS s \<noteq> GREEN" "color_EW s \<noteq> GREEN"
      by (auto simp add: stoplight_inv_def)
    then show "time_green (update_stoplight s) = 0"
      by (simp add: update_stoplight_def Let_def)
  qed
  then show ?thesis
    unfolding Let_def s_def [symmetric] by blast
qed

theorem time_green_zero_while_yellow_witness:
  "color_NS (run [Update_stoplight, Update_stoplight, Switch_yellow, Update_stoplight] (Stoplight_init True)) = YELLOW \<and>
   time_green (run [Update_stoplight, Update_stoplight, Switch_yellow, Update_stoplight] (Stoplight_init True)) = 0 \<and>
   time_green (update_stoplight (run [Update_stoplight, Update_stoplight, Switch_yellow, Update_stoplight] (Stoplight_init True))) = 0"
proof -
  have "update_stoplight \<lparr>color_NS = GREEN, color_EW = RED, time_yellow = 0, time_green = 0\<rparr>
      = \<lparr>color_NS = GREEN, color_EW = RED, time_yellow = 0, time_green = 1\<rparr>"
    and "update_stoplight \<lparr>color_NS = GREEN, color_EW = RED, time_yellow = 0, time_green = 1\<rparr>
      = \<lparr>color_NS = GREEN, color_EW = RED, time_yellow = 0, time_green = 2\<rparr>"
    and "switch_yellow \<lparr>color_NS = GREEN, color_EW = RED, time_yellow = 0, time_green = 2\<rparr>
      = \<lparr>color_NS = YELLOW, color_EW = RED, time_yellow = 0, time_green = 0\<rparr>"
    and "update_stoplight \<lparr>color_NS = YELLOW, color_EW = RED, time_yellow = 0, time_green = 0\<rparr>
      = \<lparr>color_NS = YELLOW, color_EW = RED, time_yellow = 1, time_green = 0\<rparr>"
    by (simp_all add: update_stoplight_def switch_yellow_def Let_def YELLOW_DURATION_def)
  then have st: "run [Update_stoplight, Update_stoplight, Switch_yellow, Update_stoplight] (Stoplight_init True)
      = \<lparr>color_NS = YELLOW, color_EW = RED, time_yellow = 1, time_green = 0\<rparr>"
    by (simp add: Stoplight_init_def)
  show ?thesis
    using time_green_zero_while_yellow [of "[Update_stoplight, Update_stoplight, Switch_yellow, Update_stoplight]" True]
    unfolding Let_def st by simp
qed

subsection \<open>Length of the yellow phase\<close>

text \<open>
  C3 (scenario 3). From a state with north-south YELLOW, east-west RED and
  \<^verbatim>\<open>time_yellow\<close> 0, with the duration 90: after 89 ticks north-south is still YELLOW
  and \<^verbatim>\<open>time_yellow\<close> is 89; one further tick makes north-south RED, east-west GREEN
  and \<^verbatim>\<open>time_yellow\<close> 0.
\<close>

theorem scenario_3:
  assumes "color_NS s = YELLOW" and "color_EW s = RED" and "time_yellow s = 0"
  shows "YELLOW_DURATION = 90 \<and>
    color_NS ((update_stoplight ^^ 89) s) = YELLOW \<and>
    color_EW ((update_stoplight ^^ 89) s) = RED \<and>
    time_yellow ((update_stoplight ^^ 89) s) = 89 \<and>
    color_NS (update_stoplight ((update_stoplight ^^ 89) s)) = RED \<and>
    color_EW (update_stoplight ((update_stoplight ^^ 89) s)) = GREEN \<and>
    time_yellow (update_stoplight ((update_stoplight ^^ 89) s)) = 0"
proof -
  from assms have before: "(update_stoplight ^^ 89) s = s\<lparr>time_yellow := 89\<rparr>"
    using caution_ticks_NS [of s 89] by (simp add: YELLOW_DURATION_def)
  from assms have "update_stoplight (s\<lparr>time_yellow := 89\<rparr>)
      = s\<lparr>color_NS := RED, color_EW := GREEN, time_yellow := 0\<rparr>"
    using swap_tick_NS [of "s\<lparr>time_yellow := 89\<rparr>"] by (simp add: YELLOW_DURATION_def)
  with before assms show ?thesis
    by (simp add: YELLOW_DURATION_def)
qed

theorem scenario_3_witness:
  "color_NS ((update_stoplight ^^ 89) \<lparr>color_NS = YELLOW, color_EW = RED, time_yellow = 0, time_green = 0\<rparr>) = YELLOW \<and>
   time_yellow ((update_stoplight ^^ 89) \<lparr>color_NS = YELLOW, color_EW = RED, time_yellow = 0, time_green = 0\<rparr>) = 89 \<and>
   color_NS (update_stoplight ((update_stoplight ^^ 89) \<lparr>color_NS = YELLOW, color_EW = RED, time_yellow = 0, time_green = 0\<rparr>)) = RED \<and>
   color_EW (update_stoplight ((update_stoplight ^^ 89) \<lparr>color_NS = YELLOW, color_EW = RED, time_yellow = 0, time_green = 0\<rparr>)) = GREEN \<and>
   time_yellow (update_stoplight ((update_stoplight ^^ 89) \<lparr>color_NS = YELLOW, color_EW = RED, time_yellow = 0, time_green = 0\<rparr>)) = 0"
  using scenario_3 [of "\<lparr>color_NS = YELLOW, color_EW = RED, time_yellow = 0, time_green = 0\<rparr>"]
  by simp

text \<open>
  C2, as amended. From a reachable state in which a direction is GREEN, after the
  \<^verbatim>\<open>switch_yellow\<close> that turns it YELLOW, that direction is YELLOW (and the other RED)
  after each of the first \<^verbatim>\<open>YELLOW_DURATION - 1\<close> = 89 ticks, and the tick number
  \<^verbatim>\<open>YELLOW_DURATION\<close> = 90 performs the swap: after it the direction is RED and the
  other one GREEN.
\<close>

theorem caution_lasts_duration:
  "let s = run cs (Stoplight_init b); s' = switch_yellow s in
     (color_NS s = GREEN \<longrightarrow>
        (int n < YELLOW_DURATION \<longrightarrow>
           color_NS ((update_stoplight ^^ n) s') = YELLOW \<and> color_EW ((update_stoplight ^^ n) s') = RED) \<and>
        color_NS ((update_stoplight ^^ nat YELLOW_DURATION) s') = RED \<and>
        color_EW ((update_stoplight ^^ nat YELLOW_DURATION) s') = GREEN) \<and>
     (color_EW s = GREEN \<longrightarrow>
        (int n < YELLOW_DURATION \<longrightarrow>
           color_EW ((update_stoplight ^^ n) s') = YELLOW \<and> color_NS ((update_stoplight ^^ n) s') = RED) \<and>
        color_EW ((update_stoplight ^^ nat YELLOW_DURATION) s') = RED \<and>
        color_NS ((update_stoplight ^^ nat YELLOW_DURATION) s') = GREEN)"
proof -
  define s where "s = run cs (Stoplight_init b)"
  define s' where "s' = switch_yellow s"
  have inv: "stoplight_inv s"
    unfolding s_def by (rule inv_reachable)
  have dur: "nat YELLOW_DURATION = Suc 89"
    by (simp add: YELLOW_DURATION_def)
  have ns: "(int n < YELLOW_DURATION \<longrightarrow>
           color_NS ((update_stoplight ^^ n) s') = YELLOW \<and> color_EW ((update_stoplight ^^ n) s') = RED) \<and>
        color_NS ((update_stoplight ^^ nat YELLOW_DURATION) s') = RED \<and>
        color_EW ((update_stoplight ^^ nat YELLOW_DURATION) s') = GREEN"
    if "color_NS s = GREEN"
  proof -
    from inv that have start: "color_NS s' = YELLOW" "color_EW s' = RED" "time_yellow s' = 0"
      by (auto simp add: stoplight_inv_def s'_def switch_yellow_def)
    have "(update_stoplight ^^ n) s' = s'\<lparr>time_yellow := int n\<rparr>" if "int n < YELLOW_DURATION"
      using caution_ticks_NS [of s' n] start that by simp
    moreover have "(update_stoplight ^^ Suc 89) s' = s'\<lparr>color_NS := RED, color_EW := GREEN, time_yellow := 0\<rparr>"
      using start by (intro ticks_then_swap_NS) (simp_all add: YELLOW_DURATION_def)
    ultimately show ?thesis
      using start unfolding dur by simp
  qed
  have ew: "(int n < YELLOW_DURATION \<longrightarrow>
           color_EW ((update_stoplight ^^ n) s') = YELLOW \<and> color_NS ((update_stoplight ^^ n) s') = RED) \<and>
        color_EW ((update_stoplight ^^ nat YELLOW_DURATION) s') = RED \<and>
        color_NS ((update_stoplight ^^ nat YELLOW_DURATION) s') = GREEN"
    if "color_EW s = GREEN"
  proof -
    from inv that have start: "color_EW s' = YELLOW" "color_NS s' = RED" "time_yellow s' = 0"
      by (auto simp add: stoplight_inv_def s'_def switch_yellow_def)
    have "(update_stoplight ^^ n) s' = s'\<lparr>time_yellow := int n\<rparr>" if "int n < YELLOW_DURATION"
      using caution_ticks_EW [of s' n] start that by simp
    moreover have "(update_stoplight ^^ Suc 89) s' = s'\<lparr>color_NS := GREEN, color_EW := RED, time_yellow := 0\<rparr>"
      using start by (intro ticks_then_swap_EW) (simp_all add: YELLOW_DURATION_def)
    ultimately show ?thesis
      using start unfolding dur by simp
  qed
  from ns ew show ?thesis
    unfolding Let_def s'_def [symmetric] s_def [symmetric] by simp
qed

theorem caution_lasts_duration_witness:
  "color_NS (run [] (Stoplight_init True)) = GREEN \<and> int 89 < YELLOW_DURATION \<and>
   color_NS ((update_stoplight ^^ 89) (switch_yellow (run [] (Stoplight_init True)))) = YELLOW \<and>
   color_EW ((update_stoplight ^^ 89) (switch_yellow (run [] (Stoplight_init True)))) = RED \<and>
   color_NS ((update_stoplight ^^ nat YELLOW_DURATION) (switch_yellow (run [] (Stoplight_init True)))) = RED \<and>
   color_EW ((update_stoplight ^^ nat YELLOW_DURATION) (switch_yellow (run [] (Stoplight_init True)))) = GREEN"
  using caution_lasts_duration [of "[]" True 89]
  by (simp add: Let_def Stoplight_init_def YELLOW_DURATION_def)

text \<open>
  C2 as stated asks for the direction to stay YELLOW through 90 ticks and to swap on
  the tick after them. From the stoplight constructed with north-south GREEN, north-south
  is already RED, and east-west GREEN, once 90 ticks have followed the request.
\<close>

theorem caution_ninety_ticks_counterexample:
  "color_NS (Stoplight_init True) = GREEN \<and>
   color_NS (switch_yellow (Stoplight_init True)) = YELLOW \<and>
   color_NS ((update_stoplight ^^ 90) (switch_yellow (Stoplight_init True))) \<noteq> YELLOW \<and>
   color_NS ((update_stoplight ^^ 90) (switch_yellow (Stoplight_init True))) = RED \<and>
   color_EW ((update_stoplight ^^ 90) (switch_yellow (Stoplight_init True))) = GREEN"
proof -
  have start: "switch_yellow (Stoplight_init True)
      = \<lparr>color_NS = YELLOW, color_EW = RED, time_yellow = 0, time_green = 0\<rparr>"
    by (simp add: switch_yellow_def Stoplight_init_def)
  have "(update_stoplight ^^ Suc 89) \<lparr>color_NS = YELLOW, color_EW = RED, time_yellow = 0, time_green = 0\<rparr>
      = \<lparr>color_NS = RED, color_EW = GREEN, time_yellow = 0, time_green = 0\<rparr>"
    using ticks_then_swap_NS [of "\<lparr>color_NS = YELLOW, color_EW = RED, time_yellow = 0, time_green = 0\<rparr>" 89]
    by (simp add: YELLOW_DURATION_def)
  moreover have "Suc 89 = 90" by simp
  ultimately have "(update_stoplight ^^ 90) \<lparr>color_NS = YELLOW, color_EW = RED, time_yellow = 0, time_green = 0\<rparr>
      = \<lparr>color_NS = RED, color_EW = GREEN, time_yellow = 0, time_green = 0\<rparr>"
    by metis
  then show ?thesis
    unfolding start by (simp add: Stoplight_init_def)
qed

end
